theory Spec2Isabelle
  imports Complex_Main "HOL-Library.FSet" "HOL-Library.Finite_Map"
begin

section \<open>Data model of the room server (server.js)\<close>

text \<open>
  Socket ids and room ids are JavaScript strings. \<open>new Date()\<close> reads the server clock;
  the instant it returns is an input of the handler that reads it (milliseconds since the
  epoch). \<open>Date.prototype.toISOString\<close> is a built-in of the language: its result is kept
  symbolic, as the ISO-8601 rendering of the instant it was applied to.
\<close>

type_synonym sid = string
type_synonym rid = string
type_synonym date = nat

datatype isotime = ISO date

definition toISOString :: "date \<Rightarrow> isotime" where
  "toISOString d = ISO d"

text \<open>The object stored per participant in \<open>room.users\<close> (its field \<open>id\<close> is \<open>user_id\<close>).\<close>

record user =
  user_id :: sid
  joinedAt :: date
  lastActive :: date

text \<open>The message object built by the \<open>sendTranscript\<close> handler (its field \<open>text\<close> is \<open>msg_text\<close>).\<close>

record message =
  userId :: sid
  msg_text :: string
  confidence :: real
  timestamp :: isotime

text \<open>
  The room object built by \<open>createRoom\<close> (its field \<open>id\<close> is \<open>room_id\<close>). \<open>users\<close> is a
  JavaScript \<open>Map\<close> keyed by socket id: a finite map, whose \<open>size\<close> is the number of keys.
\<close>

record room =
  room_id :: rid
  users :: "(sid, user) fmap"
  createdAt :: date
  messages :: "message list"

definition Map_size :: "('k, 'v) fmap \<Rightarrow> nat" where
  "Map_size m = fcard (fmdom m)"

definition Map_has :: "('k, 'v) fmap \<Rightarrow> 'k \<Rightarrow> bool" where
  "Map_has m k = (fmlookup m k \<noteq> None)"

text \<open>
  The state the handlers share:
  \<^item> \<open>rooms\<close>: the module-level \<open>const rooms = new Map()\<close>;
  \<^item> \<open>socket_roomId\<close>: the property \<open>socket.roomId\<close> of each socket object (absent until a
    handler assigns it);
  \<^item> \<open>sio_rooms\<close>: the socket.io rooms, changed by \<open>socket.join\<close> and \<open>socket.leave\<close> and read
    by \<open>socket.to(room).emit\<close>: for each room name, the sockets that have joined it;
  \<^item> \<open>localIP\<close>: the constant computed once at start-up.
\<close>

record server =
  rooms :: "rid \<rightharpoonup> room"
  socket_roomId :: "sid \<rightharpoonup> rid"
  sio_rooms :: "rid \<Rightarrow> sid set"
  localIP :: string

definition initial :: "string \<Rightarrow> server" where
  "initial ip = \<lparr>rooms = Map.empty, socket_roomId = Map.empty, sio_rooms = (\<lambda>_. {}), localIP = ip\<rparr>"

text \<open>Events pushed to clients, and the errors and replies passed to a request's callback.\<close>

datatype payload =
    UserJoined sid nat
  | UserLeft sid nat
  | ReceiveTranscript message

text \<open>An emitted event: the sockets it is delivered to, and what is delivered.\<close>

type_synonym emit = "sid set \<times> payload"

datatype error = CreateFailed | RoomNotFound | RoomFull | JoinFailed

fun error_text :: "error \<Rightarrow> string" where
  "error_text CreateFailed = ''Failed to create room''"
| "error_text RoomNotFound = ''Room not found''"
| "error_text RoomFull = ''Room is full''"
| "error_text JoinFailed = ''Failed to join room''"

datatype response =
    CreateSuccess rid string
  | JoinSuccess nat "message list"
  | Failure error

subsection \<open>The socket.io calls the handlers make\<close>

definition socket_join :: "sid \<Rightarrow> rid \<Rightarrow> server \<Rightarrow> server" where
  "socket_join sock r s = s\<lparr>sio_rooms := (sio_rooms s)(r := insert sock (sio_rooms s r))\<rparr>"

definition socket_leave :: "sid \<Rightarrow> rid \<Rightarrow> server \<Rightarrow> server" where
  "socket_leave sock r s = s\<lparr>sio_rooms := (sio_rooms s)(r := sio_rooms s r - {sock})\<rparr>"

text \<open>A closing socket leaves every socket.io room before its \<open>disconnect\<close> handlers run.\<close>

definition socket_leaveAll :: "sid \<Rightarrow> server \<Rightarrow> server" where
  "socket_leaveAll sock s = s\<lparr>sio_rooms := (\<lambda>r. sio_rooms s r - {sock})\<rparr>"

text \<open>\<open>socket.to(r).emit(...)\<close>: to every socket in socket.io room \<open>r\<close> except the sender.\<close>

definition socket_to_emit :: "server \<Rightarrow> sid \<Rightarrow> rid \<Rightarrow> payload \<Rightarrow> emit" where
  "socket_to_emit s sock r p = (sio_rooms s r - {sock}, p)"

text \<open>\<open>xs.slice(-n)\<close> for a positive \<open>n\<close>: the last \<open>n\<close> elements, all of them when there are fewer.\<close>

definition slice_last :: "nat \<Rightarrow> 'a list \<Rightarrow> 'a list" where
  "slice_last n xs = drop (length xs - n) xs"

text \<open>
  \<open>ms.push(m); if (ms.length > 100) ms.shift();\<close> on the array \<open>ms\<close>: \<open>push\<close> appends at the
  end, \<open>shift\<close> removes the first element.
\<close>

definition push_shift :: "'a list \<Rightarrow> 'a \<Rightarrow> 'a list" where
  "push_shift ms m = (let pushed = ms @ [m] in if length pushed > 100 then tl pushed else pushed)"

section \<open>The handlers\<close>

text \<open>
  \<open>createRoom\<close>: \<open>uuid\<close> is what \<open>uuidv4()\<close> returned, \<open>t1\<close>, \<open>t2\<close>, \<open>t3\<close> the three clock reads
  in source order. Nothing in the \<open>try\<close> block throws, so the \<open>catch\<close> reply is never sent.
\<close>

definition createRoom :: "server \<Rightarrow> sid \<Rightarrow> string \<Rightarrow> date \<Rightarrow> date \<Rightarrow> date \<Rightarrow> server \<times> response" where
  "createRoom s sock uuid t1 t2 t3 =
    (let roomId = take 6 uuid;
         room = \<lparr>room_id = roomId,
                 users = fmupd sock \<lparr>user_id = sock, joinedAt = t1, lastActive = t2\<rparr> fmempty,
                 createdAt = t3,
                 messages = []\<rparr>;
         s1 = s\<lparr>rooms := (rooms s)(roomId \<mapsto> room)\<rparr>;
         s2 = socket_join sock roomId s1;
         s3 = s2\<lparr>socket_roomId := (socket_roomId s2)(sock \<mapsto> roomId)\<rparr>
     in (s3, CreateSuccess roomId (localIP s3)))"

text \<open>\<open>joinRoom\<close>: the reply to the caller and the events emitted, in source order.\<close>

definition joinRoom :: "server \<Rightarrow> sid \<Rightarrow> rid \<Rightarrow> date \<Rightarrow> date \<Rightarrow> server \<times> response \<times> emit list" where
  "joinRoom s sock roomId t1 t2 =
    (case rooms s roomId of
       None \<Rightarrow> (s, Failure RoomNotFound, [])
     | Some room \<Rightarrow>
         if Map_size (users room) \<ge> 10 then (s, Failure RoomFull, [])
         else
           let s1 = socket_join sock roomId s;
               room' = room\<lparr>users := fmupd sock \<lparr>user_id = sock, joinedAt = t1, lastActive = t2\<rparr>
                                        (users room)\<rparr>;
               s2 = s1\<lparr>rooms := (rooms s1)(roomId \<mapsto> room')\<rparr>;
               s3 = s2\<lparr>socket_roomId := (socket_roomId s2)(sock \<mapsto> roomId)\<rparr>
           in (s3,
               JoinSuccess (Map_size (users room')) (slice_last 50 (messages room')),
               [socket_to_emit s3 sock roomId (UserJoined sock (Map_size (users room')))]))"

text \<open>
  \<open>sendTranscript\<close>: \<open>t1\<close> is the clock read of the timestamp, \<open>t2\<close> that of \<open>lastActive\<close>.
  \<open>new_message\<close> is the object literal assigned to \<open>message\<close>.
\<close>

definition new_message :: "sid \<Rightarrow> string \<Rightarrow> real \<Rightarrow> date \<Rightarrow> message" where
  "new_message sock txt conf t1 =
     \<lparr>userId = sock, msg_text = txt, confidence = conf, timestamp = toISOString t1\<rparr>"

definition sendTranscript ::
  "server \<Rightarrow> sid \<Rightarrow> rid \<Rightarrow> string \<Rightarrow> real \<Rightarrow> date \<Rightarrow> date \<Rightarrow> server \<times> emit list" where
  "sendTranscript s sock roomId txt conf t1 t2 =
    (case rooms s roomId of
       None \<Rightarrow> (s, [])
     | Some room \<Rightarrow>
        (case fmlookup (users room) sock of
           None \<Rightarrow> (s, [])
         | Some u \<Rightarrow>
            let msg = new_message sock txt conf t1;
                room' = room\<lparr>messages := push_shift (messages room) msg,
                             users := fmupd sock (u\<lparr>lastActive := t2\<rparr>) (users room)\<rparr>;
                s1 = s\<lparr>rooms := (rooms s)(roomId \<mapsto> room')\<rparr>
            in (s1, [socket_to_emit s1 sock roomId (ReceiveTranscript msg)])))"

text \<open>
  \<open>disconnect\<close>: runs after the socket has left its socket.io rooms. \<open>if (socket.roomId)\<close>
  is false for an absent property and for the empty string.
\<close>

definition disconnect :: "server \<Rightarrow> sid \<Rightarrow> server \<times> emit list" where
  "disconnect s0 sock =
    (let s = socket_leaveAll sock s0 in
     case socket_roomId s sock of
       None \<Rightarrow> (s, [])
     | Some roomId \<Rightarrow>
         if roomId = [] then (s, [])
         else
          (case rooms s roomId of
             None \<Rightarrow> (s, [])
           | Some room \<Rightarrow>
               let room' = room\<lparr>users := fmdrop sock (users room)\<rparr> in
               if Map_size (users room') = 0
               then (s\<lparr>rooms := (rooms s)(roomId := None)\<rparr>, [])
               else
                 let s1 = s\<lparr>rooms := (rooms s)(roomId \<mapsto> room')\<rparr>
                 in (s1, [socket_to_emit s1 sock roomId
                            (UserLeft sock (Map_size (users room')))])))"

definition leaveRoom :: "server \<Rightarrow> sid \<Rightarrow> rid \<Rightarrow> server \<times> emit list" where
  "leaveRoom s sock roomId =
    (case rooms s roomId of
       None \<Rightarrow> (s, [])
     | Some room \<Rightarrow>
         if \<not> Map_has (users room) sock then (s, [])
         else
           let room' = room\<lparr>users := fmdrop sock (users room)\<rparr>;
               s1 = socket_leave sock roomId (s\<lparr>rooms := (rooms s)(roomId \<mapsto> room')\<rparr>)
           in if Map_size (users room') = 0
              then (s1\<lparr>rooms := (rooms s1)(roomId := None)\<rparr>, [])
              else (s1, [socket_to_emit s1 sock roomId
                           (UserLeft sock (Map_size (users room')))]))"

section \<open>Sequences of events\<close>

text \<open>One constructor per handler registered on a socket, with the handler's inputs.\<close>

datatype event =
    CreateRoom sid string date date date
  | JoinRoom sid rid date date
  | SendTranscript sid rid string real date date
  | Disconnect sid
  | LeaveRoom sid rid

fun step :: "server \<Rightarrow> event \<Rightarrow> server" where
  "step s (CreateRoom sock uuid t1 t2 t3) = fst (createRoom s sock uuid t1 t2 t3)"
| "step s (JoinRoom sock r t1 t2) = fst (joinRoom s sock r t1 t2)"
| "step s (SendTranscript sock r txt conf t1 t2) = fst (sendTranscript s sock r txt conf t1 t2)"
| "step s (Disconnect sock) = fst (disconnect s sock)"
| "step s (LeaveRoom sock r) = fst (leaveRoom s sock r)"

definition run :: "server \<Rightarrow> event list \<Rightarrow> server" where
  "run s evs = foldl step s evs"

text \<open>The participant count of a room id: the size of its \<open>users\<close> map, 0 when there is no room.\<close>

definition userCount :: "server \<Rightarrow> rid \<Rightarrow> nat" where
  "userCount s r = (case rooms s r of None \<Rightarrow> 0 | Some room \<Rightarrow> Map_size (users room))"

definition participants :: "server \<Rightarrow> rid \<Rightarrow> sid set" where
  "participants s r = (case rooms s r of None \<Rightarrow> {} | Some room \<Rightarrow> fset (fmdom (users room)))"

definition transcript :: "server \<Rightarrow> rid \<Rightarrow> message list" where
  "transcript s r = (case rooms s r of None \<Rightarrow> [] | Some room \<Rightarrow> messages room)"


text \<open>
  A transcript send as data: the sender and the handler's inputs. \<open>send_event\<close> is the event
  it arrives as at room \<open>r\<close>, \<open>sent_message\<close> the message the handler builds for it.
\<close>

type_synonym send = "sid \<times> string \<times> real \<times> date \<times> date"

fun send_event :: "rid \<Rightarrow> send \<Rightarrow> event" where
  "send_event r (sock, txt, conf, t1, t2) = SendTranscript sock r txt conf t1 t2"

fun sent_message :: "send \<Rightarrow> message" where
  "sent_message (sock, txt, conf, t1, t2) = new_message sock txt conf t1"

section \<open>What holds of every room in the registry\<close>

text \<open>
  A room is well-formed when it has between 1 and 10 participants and at most 100 messages.
\<close>

definition room_ok :: "room \<Rightarrow> bool" where
  "room_ok room = (0 < Map_size (users room) \<and> Map_size (users room) \<le> 10 \<and> length (messages room) \<le> 100)"

definition rooms_ok :: "server \<Rightarrow> bool" where
  "rooms_ok s = (\<forall>r room. rooms s r = Some room \<longrightarrow> room_ok room)"

section \<open>Sessions and the rooms that record them\<close>

text \<open>
  The server never checks whether a socket that creates or joins a room is already recorded
  in one. An event is \<open>sanctioned\<close> when it is not such a request: a \<open>createRoom\<close> or
  \<open>joinRoom\<close> comes from a socket that no room records, and a created room gets a non-empty
  id that is not in use.
\<close>

definition in_no_room :: "server \<Rightarrow> sid \<Rightarrow> bool" where
  "in_no_room s sock = (\<forall>r. sock \<notin> participants s r)"

fun sanctioned :: "server \<Rightarrow> event \<Rightarrow> bool" where
  "sanctioned s (CreateRoom sock uuid t1 t2 t3) =
     (in_no_room s sock \<and> rooms s (take 6 uuid) = None \<and> take 6 uuid \<noteq> [])"
| "sanctioned s (JoinRoom sock r t1 t2) = in_no_room s sock"
| "sanctioned s (SendTranscript sock r tx conf t1 t2) = True"
| "sanctioned s (Disconnect sock) = True"
| "sanctioned s (LeaveRoom sock r) = True"

fun sanctioned_run :: "server \<Rightarrow> event list \<Rightarrow> bool" where
  "sanctioned_run s [] = True"
| "sanctioned_run s (ev # evs) = (sanctioned s ev \<and> sanctioned_run (step s ev) evs)"

text \<open>
  What sanctioned runs keep: a socket recorded in a room is bound to that room, the socket.io
  room of every room id holds exactly the room's participants, and no room has the empty id.
\<close>

definition bound_ok :: "server \<Rightarrow> bool" where
  "bound_ok s =
     ((\<forall>sock r. sock \<in> participants s r \<longrightarrow> socket_roomId s sock = Some r) \<and>
      (\<forall>r. sio_rooms s r = participants s r) \<and>
      rooms s [] = None)"

section \<open>Joins and leaves of one room\<close>

text \<open>
  A join or leave request for room \<open>r\<close>, the event it arrives as, and what it does in state
  \<open>s\<close>: a join succeeds when it is answered with success, and adds a participant when it
  succeeds for a socket the room does not record yet; a leave is effective when the room
  records the socket. \<open>count_ops P\<close> counts the requests of a sequence that satisfy \<open>P\<close> in the
  state they are handled in.
\<close>

datatype room_op = Join sid date date | Leave sid

fun op_event :: "rid \<Rightarrow> room_op \<Rightarrow> event" where
  "op_event r (Join sock t1 t2) = JoinRoom sock r t1 t2"
| "op_event r (Leave sock) = LeaveRoom sock r"

fun join_succeeds :: "server \<Rightarrow> rid \<Rightarrow> room_op \<Rightarrow> bool" where
  "join_succeeds s r (Join sock t1 t2) =
     (case fst (snd (joinRoom s sock r t1 t2)) of JoinSuccess n ms \<Rightarrow> True | _ \<Rightarrow> False)"
| "join_succeeds s r (Leave sock) = False"

fun join_adds :: "server \<Rightarrow> rid \<Rightarrow> room_op \<Rightarrow> bool" where
  "join_adds s r (Join sock t1 t2) =
     (join_succeeds s r (Join sock t1 t2) \<and> sock \<notin> participants s r)"
| "join_adds s r (Leave sock) = False"

fun leave_effective :: "server \<Rightarrow> rid \<Rightarrow> room_op \<Rightarrow> bool" where
  "leave_effective s r (Join sock t1 t2) = False"
| "leave_effective s r (Leave sock) = (sock \<in> participants s r)"

fun count_ops :: "(server \<Rightarrow> rid \<Rightarrow> room_op \<Rightarrow> bool) \<Rightarrow> server \<Rightarrow> rid \<Rightarrow> room_op list \<Rightarrow> nat" where
  "count_ops P s r [] = 0"
| "count_ops P s r (x # xs) =
     (if P s r x then 1 else 0) + count_ops P (step s (op_event r x)) r xs"

section \<open>Example runs\<close>

text \<open>
  Two identifiers of the shape \<open>uuidv4()\<close> returns, the server after \<open>sockA\<close> has created a
  room, 101 transcript sends by \<open>sockA\<close>, and the server after the first 100 of them.
\<close>

definition uuidA :: string where
  "uuidA = ''3f2a9c1e-7b4d-4e8a-9c3f-5d6e7f8091a2''"

definition uuidB :: string where
  "uuidB = ''b81d04c7-2e5f-4a6b-8d9e-0f1a2b3c4d5e''"

definition created :: server where
  "created = run (initial ''192.168.1.5'') [CreateRoom ''sockA'' uuidA 1 1 1]"

definition sends101 :: "send list" where
  "sends101 = map (\<lambda>i. (''sockA'', ''hello'', 9 / 10, i, i)) [0..<101]"

definition full :: server where
  "full = run created (map (send_event ''3f2a9c'') (take 100 sends101))"

text \<open>The same room after \<open>sockB\<close> has joined, with nine participants, and with ten.\<close>

definition two :: server where
  "two = run created [JoinRoom ''sockB'' ''3f2a9c'' 2 2]"

definition nine :: server where
  "nine = run created (map (\<lambda>n. JoinRoom n ''3f2a9c'' 2 2)
     [''sockB'', ''sockC'', ''sockD'', ''sockE'', ''sockF'', ''sockG'', ''sockH'', ''sockI''])"

definition ten :: server where
  "ten = run nine [JoinRoom ''sockJ'' ''3f2a9c'' 3 3]"

text \<open>
  \<open>sockA\<close> creates a room, \<open>sockB\<close> creates another, and \<open>sockA\<close> joins it without leaving
  its own. Three joins of one room by \<open>sockB\<close>.
\<close>

definition both :: server where
  "both = run (initial ''192.168.1.5'')
     [CreateRoom ''sockA'' uuidA 1 1 1, CreateRoom ''sockB'' uuidB 2 2 2,
      JoinRoom ''sockA'' ''b81d04'' 3 3]"

definition three_joins :: "room_op list" where
  "three_joins = [Join ''sockB'' 2 2, Join ''sockB'' 3 3, Join ''sockB'' 4 4]"



section \<open>Finite maps and arrays\<close>

lemma Map_size_fmupd: "Map_size (fmupd k v m) = (if Map_has m k then Map_size m else Suc (Map_size m))"
  by (simp add: Map_size_def Map_has_def fcard_finsert_if fmlookup_dom_iff)

lemma Map_size_fmdrop: "Map_size (fmdrop k m) = (if Map_has m k then Map_size m - 1 else Map_size m)"
  by (simp add: Map_size_def Map_has_def fcard_fminus_fsingleton_if fmlookup_dom_iff)

lemma Map_size_fmempty: "Map_size fmempty = 0"
  by (simp add: Map_size_def fcard_fempty)

lemma Map_has_pos: "Map_has m k \<Longrightarrow> 0 < Map_size m"
proof -
  assume "Map_has m k"
  then have "k |\<in>| fmdom m" by (auto simp: Map_has_def fmlookup_dom_iff)
  then have "fmdom m \<noteq> {||}" by auto
  then show ?thesis unfolding Map_size_def by (intro gr0I) simp
qed

section \<open>Every handler keeps the rooms well-formed\<close>

lemma room_ok_new: "room_ok \<lparr>room_id = r, users = fmupd k v fmempty, createdAt = t, messages = []\<rparr>"
  by (simp add: room_ok_def Map_size_fmupd Map_size_fmempty Map_has_def)

lemma room_ok_join:
  "room_ok room \<Longrightarrow> Map_size (users room) < 10 \<Longrightarrow> room_ok (room\<lparr>users := fmupd k v (users room)\<rparr>)"
  by (simp add: room_ok_def Map_size_fmupd)

lemma length_push_shift: "length ms \<le> 100 \<Longrightarrow> length (push_shift ms m) \<le> 100"
  by (simp add: push_shift_def Let_def)

lemma room_ok_send:
  "room_ok room \<Longrightarrow> Map_has (users room) k \<Longrightarrow> length ms \<le> 100 \<Longrightarrow>
   room_ok (room\<lparr>messages := ms, users := fmupd k v (users room)\<rparr>)"
  by (simp add: room_ok_def Map_size_fmupd)

lemma room_ok_drop:
  "room_ok room \<Longrightarrow> Map_size (fmdrop k (users room)) \<noteq> 0 \<Longrightarrow>
   room_ok (room\<lparr>users := fmdrop k (users room)\<rparr>)"
  by (simp add: room_ok_def Map_size_fmdrop split: if_splits)

lemma rooms_okD: "rooms_ok s \<Longrightarrow> rooms s r = Some room \<Longrightarrow> room_ok room"
  by (simp add: rooms_ok_def)

lemma rooms_ok_sio [simp]: "rooms_ok (s\<lparr>sio_rooms := f\<rparr>) = rooms_ok s"
  by (simp add: rooms_ok_def)

lemma rooms_ok_bind [simp]: "rooms_ok (s\<lparr>socket_roomId := f\<rparr>) = rooms_ok s"
  by (simp add: rooms_ok_def)

lemma rooms_ok_initial: "rooms_ok (initial ip)"
  by (simp add: rooms_ok_def initial_def)

lemma rooms_ok_createRoom: "rooms_ok s \<Longrightarrow> rooms_ok (fst (createRoom s sock uuid t1 t2 t3))"
  by (auto simp: createRoom_def socket_join_def Let_def rooms_ok_def room_ok_new)

lemma rooms_ok_joinRoom: "rooms_ok s \<Longrightarrow> rooms_ok (fst (joinRoom s sock r t1 t2))"
  by (auto simp: joinRoom_def socket_join_def Let_def rooms_ok_def room_ok_join not_le
      split: option.splits)

lemma rooms_ok_sendTranscript: "rooms_ok s \<Longrightarrow> rooms_ok (fst (sendTranscript s sock r txt conf t1 t2))"
  by (auto simp: sendTranscript_def Let_def rooms_ok_def Map_has_def
      intro!: room_ok_send length_push_shift split: option.splits)
     (simp add: room_ok_def)

lemma rooms_ok_disconnect: "rooms_ok s \<Longrightarrow> rooms_ok (fst (disconnect s sock))"
  by (auto simp: disconnect_def socket_leaveAll_def Let_def rooms_ok_def room_ok_drop
      split: option.splits)

lemma rooms_ok_leaveRoom: "rooms_ok s \<Longrightarrow> rooms_ok (fst (leaveRoom s sock r))"
  by (auto simp: leaveRoom_def socket_leave_def Let_def rooms_ok_def room_ok_drop
      split: option.splits)

lemma rooms_ok_step: "rooms_ok s \<Longrightarrow> rooms_ok (step s ev)"
  by (cases ev) (simp_all add: rooms_ok_createRoom rooms_ok_joinRoom rooms_ok_sendTranscript
      rooms_ok_disconnect rooms_ok_leaveRoom)

lemma rooms_ok_run: "rooms_ok s \<Longrightarrow> rooms_ok (run s evs)"
  unfolding run_def by (induction evs arbitrary: s) (simp_all add: rooms_ok_step)

section \<open>What \<open>sendTranscript\<close> does to a room\<close>

lemma sendTranscript_member:
  "rooms s r = Some room \<Longrightarrow> fmlookup (users room) sock = Some u \<Longrightarrow>
   sendTranscript s sock r txt conf t1 t2 =
     (s\<lparr>rooms := (rooms s)(r \<mapsto> room\<lparr>messages := push_shift (messages room) (new_message sock txt conf t1),
                                         users := fmupd sock (u\<lparr>lastActive := t2\<rparr>) (users room)\<rparr>)\<rparr>,
      [(sio_rooms s r - {sock}, ReceiveTranscript (new_message sock txt conf t1))])"
  by (simp add: sendTranscript_def Let_def socket_to_emit_def)

lemma sendTranscript_non_member_eq:
  "sock \<notin> participants s r \<Longrightarrow> sendTranscript s sock r txt conf t1 t2 = (s, [])"
  by (auto simp: sendTranscript_def participants_def fmlookup_dom_iff split: option.splits)

lemma participants_member:
  "sock \<in> participants s r \<longleftrightarrow> (\<exists>room u. rooms s r = Some room \<and> fmlookup (users room) sock = Some u)"
  by (auto simp: participants_def fmlookup_dom_iff split: option.splits)

lemma finsert_absorb_dom: "fmlookup m k = Some v \<Longrightarrow> finsert k (fmdom m) = fmdom m"
  by (auto simp: fmlookup_dom_iff)

lemma sendTranscript_participants:
  "participants (fst (sendTranscript s sock r txt conf t1 t2)) r' = participants s r'"
proof (cases "sock \<in> participants s r")
  case False
  then show ?thesis by (simp add: sendTranscript_non_member_eq)
next
  case True
  then obtain room u where "rooms s r = Some room" "fmlookup (users room) sock = Some u"
    by (auto simp: participants_member)
  then show ?thesis
    by (simp add: sendTranscript_member participants_def finsert_absorb_dom)
qed

lemma sendTranscript_transcript:
  "sock \<in> participants s r \<Longrightarrow>
   transcript (fst (sendTranscript s sock r txt conf t1 t2)) r
     = push_shift (transcript s r) (new_message sock txt conf t1)"
  by (auto simp: participants_member sendTranscript_member transcript_def)

lemma push_shift_slice: "length ms \<le> 100 \<Longrightarrow> push_shift ms m = slice_last 100 (ms @ [m])"
proof (cases "length ms = 100")
  case True
  then have "length (ms @ [m]) - 100 = Suc 0" by simp
  then have "slice_last 100 (ms @ [m]) = tl (ms @ [m])"
    unfolding slice_last_def by (simp only: drop_Suc drop_0)
  with True show ?thesis by (simp add: push_shift_def Let_def)
next
  case False
  assume "length ms \<le> 100"
  with False show ?thesis by (simp add: push_shift_def Let_def slice_last_def)
qed

lemma slice_last_length: "length (slice_last n xs) \<le> n"
  by (simp add: slice_last_def)

lemma slice_last_append: "slice_last n (slice_last n xs @ ys) = slice_last n (xs @ ys)"
  by (cases "length xs \<le> n") (auto simp: slice_last_def add.commute)

lemma slice_last_id: "length xs \<le> n \<Longrightarrow> slice_last n xs = xs"
  by (simp add: slice_last_def)

lemma run_Cons: "run s (ev # evs) = run (step s ev) evs"
  by (simp add: run_def)

lemma run_Nil: "run s [] = s"
  by (simp add: run_def)

lemma run_sends:
  "length (transcript s r) \<le> 100 \<Longrightarrow> \<forall>x \<in> set sends. fst x \<in> participants s r \<Longrightarrow>
   transcript (run s (map (send_event r) sends)) r
     = slice_last 100 (transcript s r @ map sent_message sends)"
proof (induction sends arbitrary: s)
  case Nil
  then show ?case by (simp add: run_Nil slice_last_id)
next
  case (Cons x sends)
  obtain sock tx conf t1 t2 where x: "x = (sock, tx, conf, t1, t2)" by (cases x)
  let ?s' = "fst (sendTranscript s sock r tx conf t1 t2)"
  from Cons.prems x have mem: "sock \<in> participants s r" by simp
  have tr: "transcript ?s' r = slice_last 100 (transcript s r @ [new_message sock tx conf t1])"
    using mem Cons.prems(1) by (simp add: sendTranscript_transcript push_shift_slice)
  have "transcript (run ?s' (map (send_event r) sends)) r
      = slice_last 100 (transcript ?s' r @ map sent_message sends)"
    using Cons.prems by (intro Cons.IH) (simp_all add: tr slice_last_length sendTranscript_participants)
  then show ?case
    using slice_last_append [of 100 "transcript s r @ [new_message sock tx conf t1]" "map sent_message sends"]
    by (simp add: x run_Cons tr)
qed

lemma run_sends_participants:
  "participants (run s (map (send_event r) sends)) r' = participants s r'"
proof (induction sends arbitrary: s)
  case Nil
  then show ?case by (simp add: run_Nil)
next
  case (Cons x sends)
  obtain sock tx conf t1 t2 where x: "x = (sock, tx, conf, t1, t2)" by (cases x)
  show ?case by (simp add: x run_Cons Cons.IH sendTranscript_participants)
qed

section \<open>What \<open>joinRoom\<close> does\<close>

lemma userCount_card: "userCount s r = card (participants s r)"
  by (simp add: userCount_def participants_def Map_size_def fcard.rep_eq split: option.splits)

lemma userCount_Some: "rooms s r = Some room \<Longrightarrow> userCount s r = Map_size (users room)"
  by (simp add: userCount_def)

lemma userCount_None: "rooms s r = None \<Longrightarrow> userCount s r = 0"
  by (simp add: userCount_def)

lemma userCount_pos_room: "0 < userCount s r \<Longrightarrow> rooms s r \<noteq> None"
  by (cases "rooms s r") (simp_all add: userCount_def)

lemma joinRoom_not_found:
  "rooms s r = None \<Longrightarrow> joinRoom s sock r t1 t2 = (s, Failure RoomNotFound, [])"
  by (simp add: joinRoom_def)

lemma joinRoom_full:
  "rooms s r = Some room \<Longrightarrow> 10 \<le> Map_size (users room) \<Longrightarrow>
   joinRoom s sock r t1 t2 = (s, Failure RoomFull, [])"
  by (simp add: joinRoom_def)

lemma joinRoom_ok:
  "rooms s r = Some room \<Longrightarrow> Map_size (users room) < 10 \<Longrightarrow>
   joinRoom s sock r t1 t2 =
     (s\<lparr>sio_rooms := (sio_rooms s)(r := insert sock (sio_rooms s r)),
        rooms := (rooms s)(r \<mapsto> room\<lparr>users :=
           fmupd sock \<lparr>user_id = sock, joinedAt = t1, lastActive = t2\<rparr> (users room)\<rparr>),
        socket_roomId := (socket_roomId s)(sock \<mapsto> r)\<rparr>,
      JoinSuccess
        (Map_size (fmupd sock \<lparr>user_id = sock, joinedAt = t1, lastActive = t2\<rparr> (users room)))
        (slice_last 50 (messages room)),
      [(insert sock (sio_rooms s r) - {sock},
        UserJoined sock
          (Map_size (fmupd sock \<lparr>user_id = sock, joinedAt = t1, lastActive = t2\<rparr> (users room))))])"
  by (simp add: joinRoom_def Let_def socket_join_def socket_to_emit_def)

lemma joinRoom_cases:
  obtains (not_found) "rooms s r = None"
  | (full) room where "rooms s r = Some room" "10 \<le> Map_size (users room)"
  | (ok) room where "rooms s r = Some room" "Map_size (users room) < 10"
  by (cases "rooms s r") (auto simp: not_le [symmetric])

lemma joinRoom_ok_participants:
  "rooms s r = Some room \<Longrightarrow> Map_size (users room) < 10 \<Longrightarrow>
   participants (fst (joinRoom s sock r t1 t2)) r' =
     (if r' = r then insert sock (participants s r) else participants s r')"
  by (simp add: joinRoom_ok participants_def)

lemma joinRoom_ok_transcript:
  "transcript (fst (joinRoom s sock r t1 t2)) r' = transcript s r'"
  by (cases s r rule: joinRoom_cases)
     (simp_all add: joinRoom_not_found joinRoom_full joinRoom_ok transcript_def)


lemma run_join_participants:
  "rooms s r \<noteq> None \<Longrightarrow> card (participants s r) < 10 \<Longrightarrow>
   participants (run s [JoinRoom sock r t1 t2]) r = insert sock (participants s r)"
  by (auto simp: run_Cons run_Nil joinRoom_ok_participants userCount_card [symmetric] userCount_def)

lemma run_join_rooms:
  "rooms (run s [JoinRoom sock r t1 t2]) r' = None \<longleftrightarrow> rooms s r' = None"
  by (cases s r rule: joinRoom_cases)
     (simp_all add: run_Cons run_Nil joinRoom_not_found joinRoom_full joinRoom_ok)

lemma run_append: "run s (xs @ ys) = run (run s xs) ys"
  by (simp add: run_def)

section \<open>The example runs, evaluated\<close>

lemma take6_uuidA: "take 6 uuidA = ''3f2a9c''"
  by (simp add: uuidA_def)

lemma take6_uuidB: "take 6 uuidB = ''b81d04''"
  by (simp add: uuidB_def)

lemma created_eq:
  "created = \<lparr>rooms = [''3f2a9c'' \<mapsto> \<lparr>room_id = ''3f2a9c'',
        users = fmupd ''sockA'' \<lparr>user_id = ''sockA'', joinedAt = 1, lastActive = 1\<rparr> fmempty,
        createdAt = 1, messages = []\<rparr>],
      socket_roomId = [''sockA'' \<mapsto> ''3f2a9c''],
      sio_rooms = (\<lambda>_. {})(''3f2a9c'' := {''sockA''}),
      localIP = ''192.168.1.5''\<rparr>"
  by (simp add: created_def run_def createRoom_def initial_def Let_def socket_join_def take6_uuidA)

lemma created_participants: "participants created ''3f2a9c'' = {''sockA''}"
  by (simp add: created_eq participants_def)

lemma created_transcript: "transcript created ''3f2a9c'' = []"
  by (simp add: created_eq transcript_def)

lemma full_participants: "participants full ''3f2a9c'' = {''sockA''}"
  by (simp add: full_def run_sends_participants created_participants)

lemma full_transcript_length: "length (transcript full ''3f2a9c'') = 100"
proof -
  have "\<forall>x \<in> set sends101. fst x \<in> participants created ''3f2a9c''"
    by (simp add: sends101_def created_participants)
  then have "\<forall>x \<in> set (take 100 sends101). fst x \<in> participants created ''3f2a9c''"
    by (blast dest: in_set_takeD)
  then have "transcript full ''3f2a9c'' = slice_last 100 (map sent_message (take 100 sends101))"
    unfolding full_def
    using run_sends [of created "''3f2a9c''" "take 100 sends101"]
    by (simp add: created_transcript)
  then show ?thesis by (simp add: slice_last_def sends101_def)
qed

lemma created_room: "rooms created ''3f2a9c'' \<noteq> None"
  by (simp add: created_eq)


lemma two_room: "rooms two ''3f2a9c'' \<noteq> None"
  by (simp add: two_def run_join_rooms created_room)

lemma nine_participants:
  "participants nine ''3f2a9c'' = {''sockA'', ''sockB'', ''sockC'', ''sockD'', ''sockE'',
     ''sockF'', ''sockG'', ''sockH'', ''sockI''}"
proof -
  let ?r = "''3f2a9c''"
  define s2 where "s2 = run created [JoinRoom ''sockB'' ?r 2 2]"
  define s3 where "s3 = run s2 [JoinRoom ''sockC'' ?r 2 2]"
  define s4 where "s4 = run s3 [JoinRoom ''sockD'' ?r 2 2]"
  define s5 where "s5 = run s4 [JoinRoom ''sockE'' ?r 2 2]"
  define s6 where "s6 = run s5 [JoinRoom ''sockF'' ?r 2 2]"
  define s7 where "s7 = run s6 [JoinRoom ''sockG'' ?r 2 2]"
  define s8 where "s8 = run s7 [JoinRoom ''sockH'' ?r 2 2]"
  define s9 where "s9 = run s8 [JoinRoom ''sockI'' ?r 2 2]"
  have r2: "rooms s2 ?r \<noteq> None" by (simp add: s2_def run_join_rooms created_room)
  have r3: "rooms s3 ?r \<noteq> None" using r2 by (simp add: s3_def run_join_rooms)
  have r4: "rooms s4 ?r \<noteq> None" using r3 by (simp add: s4_def run_join_rooms)
  have r5: "rooms s5 ?r \<noteq> None" using r4 by (simp add: s5_def run_join_rooms)
  have r6: "rooms s6 ?r \<noteq> None" using r5 by (simp add: s6_def run_join_rooms)
  have r7: "rooms s7 ?r \<noteq> None" using r6 by (simp add: s7_def run_join_rooms)
  have r8: "rooms s8 ?r \<noteq> None" using r7 by (simp add: s8_def run_join_rooms)
  have p2: "participants s2 ?r = {''sockB'', ''sockA''}"
    unfolding s2_def by (subst run_join_participants) (simp_all add: created_room created_participants)
  have p3: "participants s3 ?r = {''sockC'', ''sockB'', ''sockA''}"
    unfolding s3_def by (subst run_join_participants) (simp_all add: r2 p2)
  have p4: "participants s4 ?r = {''sockD'', ''sockC'', ''sockB'', ''sockA''}"
    unfolding s4_def by (subst run_join_participants) (simp_all add: r3 p3)
  have p5: "participants s5 ?r = {''sockE'', ''sockD'', ''sockC'', ''sockB'', ''sockA''}"
    unfolding s5_def by (subst run_join_participants) (simp_all add: r4 p4)
  have p6: "participants s6 ?r = {''sockF'', ''sockE'', ''sockD'', ''sockC'', ''sockB'', ''sockA''}"
    unfolding s6_def by (subst run_join_participants) (simp_all add: r5 p5)
  have p7: "participants s7 ?r = {''sockG'', ''sockF'', ''sockE'', ''sockD'', ''sockC'', ''sockB'', ''sockA''}"
    unfolding s7_def by (subst run_join_participants) (simp_all add: r6 p6)
  have p8: "participants s8 ?r = {''sockH'', ''sockG'', ''sockF'', ''sockE'', ''sockD'', ''sockC'', ''sockB'', ''sockA''}"
    unfolding s8_def by (subst run_join_participants) (simp_all add: r7 p7)
  have p9: "participants s9 ?r = {''sockI'', ''sockH'', ''sockG'', ''sockF'', ''sockE'', ''sockD'', ''sockC'', ''sockB'', ''sockA''}"
    unfolding s9_def by (subst run_join_participants) (simp_all add: r8 p8)
  have "nine = s9"
    unfolding nine_def s9_def s8_def s7_def s6_def s5_def s4_def s3_def s2_def
    by (simp add: run_def)
  with p9 show ?thesis by auto
qed

lemma nine_room: "rooms nine ''3f2a9c'' \<noteq> None"
  by (rule userCount_pos_room) (simp add: userCount_card nine_participants)

lemma nine_userCount: "userCount nine ''3f2a9c'' = 9"
  by (simp add: userCount_card nine_participants)

lemma ten_participants:
  "participants ten ''3f2a9c'' = {''sockJ'', ''sockA'', ''sockB'', ''sockC'', ''sockD'', ''sockE'',
     ''sockF'', ''sockG'', ''sockH'', ''sockI''}"
  unfolding ten_def
  by (subst run_join_participants) (simp_all add: nine_room nine_participants)

lemma ten_userCount: "userCount ten ''3f2a9c'' = 10"
  by (simp add: userCount_card ten_participants)

lemma created_other_room: "rooms created ''b81d04'' = None"
  by (simp add: created_eq)

section \<open>The bounded transcript\<close>

text \<open>
  C1. In every state reachable from the initial one by any sequence of events, every room's
  transcript has at most 100 entries. A send by a participant into a transcript of 100 entries
  drops the oldest entry and appends the new message. After 101 sends by participants into a
  room with an empty transcript, the transcript is the 2nd to 101st message, in the order sent.
\<close>

theorem transcript_bounded_fifo:
  "(\<forall>r. length (transcript (run (initial ip) evs) r) \<le> 100) \<and>
   (sock \<in> participants s r \<and> length (transcript s r) = 100 \<longrightarrow>
      transcript (step s (SendTranscript sock r tx conf t1 t2)) r
        = tl (transcript s r) @ [new_message sock tx conf t1]) \<and>
   (transcript s' r' = [] \<and> length sends = 101 \<and> (\<forall>x \<in> set sends. fst x \<in> participants s' r') \<longrightarrow>
      transcript (run s' (map (send_event r') sends)) r' = tl (map sent_message sends))"
proof (intro conjI allI impI)
  fix r
  have "rooms_ok (run (initial ip) evs)"
    by (intro rooms_ok_run rooms_ok_initial)
  then show "length (transcript (run (initial ip) evs) r) \<le> 100"
    by (auto simp: transcript_def rooms_ok_def room_ok_def split: option.splits)
next
  assume "sock \<in> participants s r \<and> length (transcript s r) = 100"
  then show "transcript (step s (SendTranscript sock r tx conf t1 t2)) r
        = tl (transcript s r) @ [new_message sock tx conf t1]"
    by (cases "transcript s r") (simp_all add: sendTranscript_transcript push_shift_def Let_def)
next
  assume h: "transcript s' r' = [] \<and> length sends = 101 \<and> (\<forall>x \<in> set sends. fst x \<in> participants s' r')"
  then have "transcript (run s' (map (send_event r') sends)) r'
      = slice_last 100 (map sent_message sends)"
    using run_sends [of s' r' sends] by simp
  also have "\<dots> = drop (Suc 0) (map sent_message sends)"
    using h by (simp add: slice_last_def)
  also have "\<dots> = tl (map sent_message sends)"
    by (simp only: drop_Suc drop_0)
  finally show "transcript (run s' (map (send_event r') sends)) r' = tl (map sent_message sends)" .
qed

theorem transcript_bounded_fifo_witness:
  "(\<forall>r. length (transcript (run (initial ''192.168.1.5'') [CreateRoom ''sockA'' uuidA 1 1 1]) r) \<le> 100) \<and>
   ''sockA'' \<in> participants full ''3f2a9c'' \<and> length (transcript full ''3f2a9c'') = 100 \<and>
   transcript (step full (SendTranscript ''sockA'' ''3f2a9c'' ''bye'' 1 200 200)) ''3f2a9c''
     = tl (transcript full ''3f2a9c'') @ [new_message ''sockA'' ''bye'' 1 200] \<and>
   transcript created ''3f2a9c'' = [] \<and> length sends101 = 101 \<and>
   fst ` set sends101 \<subseteq> participants created ''3f2a9c'' \<and>
   transcript (run created (map (send_event ''3f2a9c'') sends101)) ''3f2a9c''
     = tl (map sent_message sends101)"
  using transcript_bounded_fifo [where ip = "''192.168.1.5''"
      and evs = "[CreateRoom ''sockA'' uuidA 1 1 1]"
      and sock = "''sockA''" and s = full and r = "''3f2a9c''" and tx = "''bye''" and conf = 1
      and ?t1.0 = 200 and ?t2.0 = 200
      and s' = created and r' = "''3f2a9c''" and sends = sends101]
  by (auto simp: created_participants created_transcript full_participants full_transcript_length
      sends101_def)

section \<open>Requests that change nothing\<close>

text \<open>
  C10. A \<open>joinRoom\<close> for a room id that is not in the registry is answered with
  \<open>RoomNotFound\<close>, one for a room of 10 or more participants with \<open>RoomFull\<close>; and whenever
  \<open>joinRoom\<close> answers with a failure, the failure is one of these two, the whole server state
  (registry, socket bindings, socket.io rooms) is the state before the request, and no event
  is emitted.
\<close>

theorem joinRoom_failure_atomic:
  "(rooms s r = None \<longrightarrow> joinRoom s sock r t1 t2 = (s, Failure RoomNotFound, [])) \<and>
   (10 \<le> userCount s r \<longrightarrow> joinRoom s sock r t1 t2 = (s, Failure RoomFull, [])) \<and>
   (fst (snd (joinRoom s sock r t1 t2)) = Failure e \<longrightarrow>
      joinRoom s sock r t1 t2 = (s, Failure e, []) \<and> (e = RoomNotFound \<or> e = RoomFull))"
proof (cases s r rule: joinRoom_cases)
  case not_found
  then show ?thesis by (simp add: joinRoom_not_found userCount_None)
next
  case (full room)
  then show ?thesis by (simp add: joinRoom_full userCount_Some)
next
  case (ok room)
  then show ?thesis by (simp add: joinRoom_ok userCount_Some)
qed

theorem joinRoom_failure_atomic_witness:
  "rooms created ''b81d04'' = None \<and>
   joinRoom created ''sockB'' ''b81d04'' 5 5 = (created, Failure RoomNotFound, []) \<and>
   10 \<le> userCount ten ''3f2a9c'' \<and>
   joinRoom ten ''sockK'' ''3f2a9c'' 5 5 = (ten, Failure RoomFull, []) \<and>
   fst (snd (joinRoom ten ''sockK'' ''3f2a9c'' 5 5)) = Failure RoomFull"
proof -
  have full: "10 \<le> userCount ten ''3f2a9c''"
    by (simp add: ten_userCount)
  have a: "joinRoom created ''sockB'' ''b81d04'' 5 5 = (created, Failure RoomNotFound, [])"
    using joinRoom_failure_atomic [of created "''b81d04''" "''sockB''" 5 5 RoomNotFound]
      created_other_room by blast
  have b: "joinRoom ten ''sockK'' ''3f2a9c'' 5 5 = (ten, Failure RoomFull, [])"
    using joinRoom_failure_atomic [of ten "''3f2a9c''" "''sockK''" 5 5 RoomFull] full by blast
  show ?thesis
    by (simp add: a b created_other_room full)
qed

text \<open>
  C6. A \<open>sendTranscript\<close> naming a room that does not exist, or a room the sender is not a
  participant of, leaves the whole server state as it was and emits no event.
\<close>

theorem sendTranscript_non_member:
  "(rooms s r = None \<longrightarrow> sendTranscript s sock r tx conf t1 t2 = (s, [])) \<and>
   (sock \<notin> participants s r \<longrightarrow> sendTranscript s sock r tx conf t1 t2 = (s, []))"
  by (simp add: sendTranscript_non_member_eq) (simp add: sendTranscript_def)

theorem sendTranscript_non_member_witness:
  "rooms created ''b81d04'' = None \<and>
   sendTranscript created ''sockA'' ''b81d04'' ''hello'' (9 / 10) 7 7 = (created, []) \<and>
   ''sockB'' \<notin> participants created ''3f2a9c'' \<and>
   sendTranscript created ''sockB'' ''3f2a9c'' ''hello'' (9 / 10) 7 7 = (created, [])"
  using sendTranscript_non_member [of created "''b81d04''" "''sockA''" "''hello''" "9 / 10" 7 7]
    sendTranscript_non_member [of created "''3f2a9c''" "''sockB''" "''hello''" "9 / 10" 7 7]
  by (simp add: created_participants) (simp add: created_eq)

section \<open>Creating a room\<close>

lemma createRoom_eq:
  "createRoom s sock uuid t1 t2 t3 =
    (s\<lparr>rooms := (rooms s)(take 6 uuid \<mapsto>
          \<lparr>room_id = take 6 uuid,
           users = fmupd sock \<lparr>user_id = sock, joinedAt = t1, lastActive = t2\<rparr> fmempty,
           createdAt = t3, messages = []\<rparr>),
       sio_rooms := (sio_rooms s)(take 6 uuid := insert sock (sio_rooms s (take 6 uuid))),
       socket_roomId := (socket_roomId s)(sock \<mapsto> take 6 uuid)\<rparr>,
     CreateSuccess (take 6 uuid) (localIP s))"
  by (simp add: createRoom_def Let_def socket_join_def)

text \<open>
  C9. \<open>createRoom\<close> always answers with success and the room id, the first 6 characters of
  the generated identifier (6 characters long for the 36-character strings \<open>uuidv4()\<close>
  returns); afterwards the registry has a room under that id, whose only participant is the
  requesting socket and whose transcript is empty.
\<close>

theorem createRoom_succeeds:
  "snd (createRoom s sock uuid t1 t2 t3) = CreateSuccess (take 6 uuid) (localIP s) \<and>
   (length uuid = 36 \<longrightarrow> length (take 6 uuid) = 6) \<and>
   rooms (fst (createRoom s sock uuid t1 t2 t3)) (take 6 uuid) \<noteq> None \<and>
   participants (fst (createRoom s sock uuid t1 t2 t3)) (take 6 uuid) = {sock} \<and>
   transcript (fst (createRoom s sock uuid t1 t2 t3)) (take 6 uuid) = []"
  by (simp add: createRoom_eq participants_def transcript_def)

theorem createRoom_succeeds_witness:
  "length uuidB = 36 \<and>
   snd (createRoom created ''sockB'' uuidB 4 4 4) = CreateSuccess ''b81d04'' ''192.168.1.5'' \<and>
   length ''b81d04'' = 6 \<and>
   rooms (fst (createRoom created ''sockB'' uuidB 4 4 4)) ''b81d04'' \<noteq> None \<and>
   participants (fst (createRoom created ''sockB'' uuidB 4 4 4)) ''b81d04'' = {''sockB''} \<and>
   transcript (fst (createRoom created ''sockB'' uuidB 4 4 4)) ''b81d04'' = []"
  using createRoom_succeeds [of created "''sockB''" uuidB 4 4 4]
  by (simp add: take6_uuidB) (simp add: uuidB_def created_eq)

section \<open>Rooms without participants\<close>

lemma participants_Some: "rooms s r = Some room \<Longrightarrow> participants s r = fset (fmdom (users room))"
  by (simp add: participants_def)

lemma participants_None: "rooms s r = None \<Longrightarrow> participants s r = {}"
  by (simp add: participants_def)

lemma participants_singletonD:
  assumes "participants s r = {sock}"
  obtains room where "rooms s r = Some room" "fmdom (users room) = {|sock|}"
proof (cases "rooms s r")
  case None
  with assms show ?thesis by (simp add: participants_None)
next
  case (Some room)
  with assms have "fset (fmdom (users room)) = fset {|sock|}" by (simp add: participants_Some)
  then have "fmdom (users room) = {|sock|}" by (simp only: fset_inject)
  with Some show ?thesis by (rule that)
qed

lemma Map_has_dom: "Map_has m k \<longleftrightarrow> k |\<in>| fmdom m"
  by (auto simp: Map_has_def fmlookup_dom_iff)

lemma leaveRoom_last:
  "rooms s r = Some room \<Longrightarrow> fmdom (users room) = {|sock|} \<Longrightarrow>
   leaveRoom s sock r =
     (s\<lparr>rooms := (rooms s)(r := None), sio_rooms := (sio_rooms s)(r := sio_rooms s r - {sock})\<rparr>, [])"
  by (simp add: leaveRoom_def Let_def socket_leave_def Map_has_dom Map_size_def)

lemma disconnect_last:
  "socket_roomId s sock = Some r \<Longrightarrow> r \<noteq> [] \<Longrightarrow> rooms s r = Some room \<Longrightarrow>
   fmdom (users room) = {|sock|} \<Longrightarrow>
   disconnect s sock =
     (s\<lparr>sio_rooms := (\<lambda>r. sio_rooms s r - {sock}), rooms := (rooms s)(r := None)\<rparr>, [])"
  by (simp add: disconnect_def Let_def socket_leaveAll_def Map_size_def)

text \<open>
  C2. No room reachable from the initial state has zero participants. When the only
  participant of a room leaves it, or disconnects while bound to it, the room is removed from
  the registry at once, and a \<open>joinRoom\<close> for its id afterwards is answered with
  \<open>RoomNotFound\<close>.
\<close>

theorem empty_room_removed:
  "(\<forall>r. rooms (run (initial ip) evs) r \<noteq> None \<longrightarrow> 0 < userCount (run (initial ip) evs) r) \<and>
   (participants s r = {sock} \<longrightarrow>
      rooms (fst (leaveRoom s sock r)) r = None \<and>
      joinRoom (fst (leaveRoom s sock r)) sock' r t1 t2
        = (fst (leaveRoom s sock r), Failure RoomNotFound, [])) \<and>
   (participants s r = {sock} \<and> socket_roomId s sock = Some r \<and> r \<noteq> [] \<longrightarrow>
      rooms (fst (disconnect s sock)) r = None \<and>
      joinRoom (fst (disconnect s sock)) sock' r t1 t2
        = (fst (disconnect s sock), Failure RoomNotFound, []))"
proof (intro conjI allI impI)
  fix r'
  assume ex: "rooms (run (initial ip) evs) r' \<noteq> None"
  have "rooms_ok (run (initial ip) evs)"
    by (intro rooms_ok_run rooms_ok_initial)
  with ex show "0 < userCount (run (initial ip) evs) r'"
    by (auto simp: userCount_def rooms_ok_def room_ok_def)
next
  assume p: "participants s r = {sock}"
  then obtain room where room: "rooms s r = Some room" "fmdom (users room) = {|sock|}"
    by (rule participants_singletonD)
  then show gone: "rooms (fst (leaveRoom s sock r)) r = None"
    by (simp add: leaveRoom_last)
  then show "joinRoom (fst (leaveRoom s sock r)) sock' r t1 t2
      = (fst (leaveRoom s sock r), Failure RoomNotFound, [])"
    by (rule joinRoom_not_found)
next
  assume p: "participants s r = {sock} \<and> socket_roomId s sock = Some r \<and> r \<noteq> []"
  then obtain room where room: "rooms s r = Some room" "fmdom (users room) = {|sock|}"
    by (blast elim: participants_singletonD)
  with p show gone: "rooms (fst (disconnect s sock)) r = None"
    by (simp add: disconnect_last)
  then show "joinRoom (fst (disconnect s sock)) sock' r t1 t2
      = (fst (disconnect s sock), Failure RoomNotFound, [])"
    by (rule joinRoom_not_found)
qed

lemma created_binding: "socket_roomId created ''sockA'' = Some ''3f2a9c''"
  by (simp add: created_eq)

lemma created_userCount: "userCount created ''3f2a9c'' = 1"
  by (simp add: userCount_card created_participants)

theorem empty_room_removed_witness:
  "rooms (run (initial ''192.168.1.5'') [CreateRoom ''sockA'' uuidA 1 1 1]) ''3f2a9c'' \<noteq> None \<and>
   0 < userCount (run (initial ''192.168.1.5'') [CreateRoom ''sockA'' uuidA 1 1 1]) ''3f2a9c'' \<and>
   participants created ''3f2a9c'' = {''sockA''} \<and>
   socket_roomId created ''sockA'' = Some ''3f2a9c'' \<and>
   rooms (fst (leaveRoom created ''sockA'' ''3f2a9c'')) ''3f2a9c'' = None \<and>
   joinRoom (fst (leaveRoom created ''sockA'' ''3f2a9c'')) ''sockB'' ''3f2a9c'' 5 5
     = (fst (leaveRoom created ''sockA'' ''3f2a9c''), Failure RoomNotFound, []) \<and>
   rooms (fst (disconnect created ''sockA'')) ''3f2a9c'' = None \<and>
   joinRoom (fst (disconnect created ''sockA'')) ''sockB'' ''3f2a9c'' 5 5
     = (fst (disconnect created ''sockA''), Failure RoomNotFound, [])"
proof -
  have r: "rooms (run (initial ''192.168.1.5'') [CreateRoom ''sockA'' uuidA 1 1 1]) ''3f2a9c'' \<noteq> None"
    using created_room by (simp add: created_def)
  have s: "''3f2a9c'' \<noteq> []" by simp
  show ?thesis
    using empty_room_removed [of "''192.168.1.5''" "[CreateRoom ''sockA'' uuidA 1 1 1]"
        created "''3f2a9c''" "''sockA''" "''sockB''" 5 5]
      r s created_participants created_binding
    by blast
qed

section \<open>The capacity of a room\<close>

lemma finite_participants: "finite (participants s r)"
  by (simp add: participants_def split: option.splits)

lemma transcript_Some: "rooms s r = Some room \<Longrightarrow> transcript s r = messages room"
  by (simp add: transcript_def)

lemma joinRoom_ok_response:
  "rooms s r \<noteq> None \<Longrightarrow> userCount s r < 10 \<Longrightarrow>
   fst (snd (joinRoom s sock r t1 t2))
     = JoinSuccess (userCount (fst (joinRoom s sock r t1 t2)) r) (slice_last 50 (transcript s r))"
  by (auto simp: joinRoom_ok userCount_def transcript_def)

lemma joinRoom_ok_userCount:
  "rooms s r \<noteq> None \<Longrightarrow> userCount s r < 10 \<Longrightarrow>
   userCount (fst (joinRoom s sock r t1 t2)) r
     = (if sock \<in> participants s r then userCount s r else Suc (userCount s r))"
proof -
  assume a: "rooms s r \<noteq> None" "userCount s r < 10"
  then obtain room where room: "rooms s r = Some room" "Map_size (users room) < 10"
    by (auto simp: userCount_def)
  have "participants (fst (joinRoom s sock r t1 t2)) r = insert sock (participants s r)"
    using room by (simp add: joinRoom_ok_participants)
  then show ?thesis
    by (simp add: userCount_card finite_participants card_insert_if)
qed

text \<open>
  C3, as the code has it. For a room in the registry, \<open>joinRoom\<close> answers \<open>RoomFull\<close>
  exactly when the room has 10 or more participants. With 9 participants a join succeeds; it
  brings the count to 10 when the joiner is not yet a participant of the room, and leaves it
  at 9 when the joiner already is one (its record is replaced). No room reachable from the
  initial state has more than 10 participants.
\<close>

theorem joinRoom_capacity:
  "(rooms s r \<noteq> None \<longrightarrow>
      (fst (snd (joinRoom s sock r t1 t2)) = Failure RoomFull \<longleftrightarrow> 10 \<le> userCount s r)) \<and>
   (userCount s r = 9 \<and> sock \<notin> participants s r \<longrightarrow>
      fst (snd (joinRoom s sock r t1 t2)) = JoinSuccess 10 (slice_last 50 (transcript s r)) \<and>
      userCount (fst (joinRoom s sock r t1 t2)) r = 10) \<and>
   (userCount s r = 9 \<and> sock \<in> participants s r \<longrightarrow>
      fst (snd (joinRoom s sock r t1 t2)) = JoinSuccess 9 (slice_last 50 (transcript s r)) \<and>
      userCount (fst (joinRoom s sock r t1 t2)) r = 9) \<and>
   (\<forall>r'. userCount (run (initial ip) evs) r' \<le> 10)"
proof (intro conjI allI impI)
  assume "rooms s r \<noteq> None"
  then obtain room where room: "rooms s r = Some room" by auto
  show "fst (snd (joinRoom s sock r t1 t2)) = Failure RoomFull \<longleftrightarrow> 10 \<le> userCount s r"
  proof (cases "10 \<le> Map_size (users room)")
    case True
    with room show ?thesis by (simp add: joinRoom_full userCount_Some)
  next
    case False
    with room show ?thesis by (simp add: joinRoom_ok userCount_Some)
  qed
next
  assume a: "userCount s r = 9 \<and> sock \<notin> participants s r"
  then have ex: "rooms s r \<noteq> None" "userCount s r < 10"
    by (simp_all add: userCount_pos_room)
  from a have n: "userCount (fst (joinRoom s sock r t1 t2)) r = 10"
    by (simp add: joinRoom_ok_userCount [OF ex])
  then show "fst (snd (joinRoom s sock r t1 t2)) = JoinSuccess 10 (slice_last 50 (transcript s r))"
    by (simp add: joinRoom_ok_response [OF ex])
  from n show "userCount (fst (joinRoom s sock r t1 t2)) r = 10" .
next
  assume a: "userCount s r = 9 \<and> sock \<in> participants s r"
  then have ex: "rooms s r \<noteq> None" "userCount s r < 10"
    by (simp_all add: userCount_pos_room)
  from a have n: "userCount (fst (joinRoom s sock r t1 t2)) r = 9"
    by (simp add: joinRoom_ok_userCount [OF ex])
  then show "fst (snd (joinRoom s sock r t1 t2)) = JoinSuccess 9 (slice_last 50 (transcript s r))"
    by (simp add: joinRoom_ok_response [OF ex])
  from n show "userCount (fst (joinRoom s sock r t1 t2)) r = 9" .
next
  fix r'
  have "rooms_ok (run (initial ip) evs)"
    by (intro rooms_ok_run rooms_ok_initial)
  then show "userCount (run (initial ip) evs) r' \<le> 10"
    by (auto simp: userCount_def rooms_ok_def room_ok_def split: option.splits)
qed

lemma nine_transcript: "transcript nine ''3f2a9c'' = []"
  by (simp add: nine_def run_def joinRoom_ok_transcript created_transcript)

lemma ten_room: "rooms ten ''3f2a9c'' \<noteq> None"
  by (rule userCount_pos_room) (simp add: ten_userCount)

theorem joinRoom_capacity_witness:
  "rooms ten ''3f2a9c'' \<noteq> None \<and> 10 \<le> userCount ten ''3f2a9c'' \<and>
   fst (snd (joinRoom ten ''sockK'' ''3f2a9c'' 5 5)) = Failure RoomFull \<and>
   userCount nine ''3f2a9c'' = 9 \<and> ''sockJ'' \<notin> participants nine ''3f2a9c'' \<and>
   fst (snd (joinRoom nine ''sockJ'' ''3f2a9c'' 5 5)) = JoinSuccess 10 [] \<and>
   userCount (fst (joinRoom nine ''sockJ'' ''3f2a9c'' 5 5)) ''3f2a9c'' = 10 \<and>
   ''sockA'' \<in> participants nine ''3f2a9c'' \<and>
   fst (snd (joinRoom nine ''sockA'' ''3f2a9c'' 5 5)) = JoinSuccess 9 [] \<and>
   userCount (fst (joinRoom nine ''sockA'' ''3f2a9c'' 5 5)) ''3f2a9c'' = 9 \<and>
   userCount (run (initial ''192.168.1.5'') [CreateRoom ''sockA'' uuidA 1 1 1]) ''3f2a9c'' \<le> 10"
proof -
  have full: "10 \<le> userCount ten ''3f2a9c''" by (simp add: ten_userCount)
  have out: "''sockJ'' \<notin> participants nine ''3f2a9c''" by (simp add: nine_participants)
  have inn: "''sockA'' \<in> participants nine ''3f2a9c''" by (simp add: nine_participants)
  have e: "slice_last 50 (transcript nine ''3f2a9c'') = []" by (simp add: nine_transcript slice_last_def)
  note a = joinRoom_capacity [of ten "''3f2a9c''" "''sockK''" 5 5 "''192.168.1.5''"
      "[CreateRoom ''sockA'' uuidA 1 1 1]"]
  note b = joinRoom_capacity [of nine "''3f2a9c''" "''sockJ''" 5 5 "''192.168.1.5''" "[]"]
  note c = joinRoom_capacity [of nine "''3f2a9c''" "''sockA''" 5 5 "''192.168.1.5''" "[]"]
  show ?thesis
    using a b c full out inn ten_room nine_userCount unfolding e by blast
qed

text \<open>
  The claim as written (every join at 9 participants brings the count to 10) fails when a
  participant of the room joins it again: \<open>sockA\<close>, the creator of a room of nine, joins it and
  is told the count is 9.
\<close>

theorem joinRoom_at_nine_counterexample:
  "userCount nine ''3f2a9c'' = 9 \<and>
   fst (snd (joinRoom nine ''sockA'' ''3f2a9c'' 5 5)) = JoinSuccess 9 [] \<and>
   userCount (fst (joinRoom nine ''sockA'' ''3f2a9c'' 5 5)) ''3f2a9c'' = 9 \<and>
   userCount (fst (joinRoom nine ''sockA'' ''3f2a9c'' 5 5)) ''3f2a9c'' \<noteq> 10"
proof -
  have ex: "rooms nine ''3f2a9c'' \<noteq> None" "userCount nine ''3f2a9c'' < 10"
    by (simp_all add: nine_room nine_userCount)
  have n: "userCount (fst (joinRoom nine ''sockA'' ''3f2a9c'' 5 5)) ''3f2a9c'' = 9"
    by (simp add: joinRoom_ok_userCount [OF ex] nine_participants nine_userCount)
  then show ?thesis
    by (simp add: joinRoom_ok_response [OF ex] nine_userCount nine_transcript slice_last_def)
qed

section \<open>Joins and sends in the example runs\<close>



lemma two_join:
  "joinRoom created ''sockB'' ''3f2a9c'' 2 2
     = (two, JoinSuccess 2 [], [({''sockA''}, UserJoined ''sockB'' 2)])"
proof -
  obtain room where room: "rooms created ''3f2a9c'' = Some room"
    "users room = fmupd ''sockA'' \<lparr>user_id = ''sockA'', joinedAt = 1, lastActive = 1\<rparr> fmempty"
    "messages room = []"
    by (simp add: created_eq)
  then have size: "Map_size (users room) < 10"
    by (simp add: Map_size_fmupd Map_size_fmempty Map_has_def)
  have sio: "sio_rooms created ''3f2a9c'' = {''sockA''}"
    by (simp add: created_eq)
  have "two = fst (joinRoom created ''sockB'' ''3f2a9c'' 2 2)"
    by (simp add: two_def run_def)
  then show ?thesis
    using room(2,3) sio
    by (simp add: joinRoom_ok [OF room(1) size] Map_size_fmupd Map_size_fmempty Map_has_def
        slice_last_def)
qed





section \<open>What each handler does to participants, bindings and socket.io rooms\<close>

lemma fset_fmdom_fmdrop: "fset (fmdom (fmdrop k m)) = fset (fmdom m) - {k}"
  by simp

lemma Map_size_0_iff: "Map_size m = 0 \<longleftrightarrow> fset (fmdom m) = {}"
  by (auto simp: Map_size_def)

lemma createRoom_participants:
  "participants (fst (createRoom s sock uuid t1 t2 t3)) r
     = (if r = take 6 uuid then {sock} else participants s r)"
  by (simp add: createRoom_eq participants_def)

lemma createRoom_binding:
  "socket_roomId (fst (createRoom s sock uuid t1 t2 t3)) = (socket_roomId s)(sock \<mapsto> take 6 uuid)"
  by (simp add: createRoom_eq)

lemma createRoom_sio_rooms:
  "sio_rooms (fst (createRoom s sock uuid t1 t2 t3))
     = (sio_rooms s)(take 6 uuid := insert sock (sio_rooms s (take 6 uuid)))"
  by (simp add: createRoom_eq)

lemma joinRoom_participants:
  "participants (fst (joinRoom s sock r t1 t2)) r'
     = (if r' = r \<and> rooms s r \<noteq> None \<and> userCount s r < 10
        then insert sock (participants s r) else participants s r')"
  by (cases s r rule: joinRoom_cases)
     (auto simp: joinRoom_not_found joinRoom_full joinRoom_ok_participants userCount_Some)

lemma joinRoom_binding:
  "socket_roomId (fst (joinRoom s sock r t1 t2))
     = (if rooms s r \<noteq> None \<and> userCount s r < 10
        then (socket_roomId s)(sock \<mapsto> r) else socket_roomId s)"
  by (cases s r rule: joinRoom_cases)
     (auto simp: joinRoom_not_found joinRoom_full joinRoom_ok userCount_Some)

lemma joinRoom_sio_rooms:
  "sio_rooms (fst (joinRoom s sock r t1 t2))
     = (if rooms s r \<noteq> None \<and> userCount s r < 10
        then (sio_rooms s)(r := insert sock (sio_rooms s r)) else sio_rooms s)"
  by (cases s r rule: joinRoom_cases)
     (auto simp: joinRoom_not_found joinRoom_full joinRoom_ok userCount_Some)

lemma sendTranscript_binding:
  "socket_roomId (fst (sendTranscript s sock r tx conf t1 t2)) = socket_roomId s"
  by (simp add: sendTranscript_def Let_def split: option.splits)

lemma sendTranscript_sio_rooms:
  "sio_rooms (fst (sendTranscript s sock r tx conf t1 t2)) = sio_rooms s"
  by (simp add: sendTranscript_def Let_def split: option.splits)

lemma leaveRoom_participants:
  "participants (fst (leaveRoom s sock r)) r'
     = (if r' = r then participants s r - {sock} else participants s r')"
  by (auto simp: leaveRoom_def Let_def socket_leave_def participants_def Map_has_dom
      Map_size_0_iff split: option.splits)

lemma leaveRoom_binding: "socket_roomId (fst (leaveRoom s sock r)) = socket_roomId s"
  by (simp add: leaveRoom_def Let_def socket_leave_def split: option.splits)

lemma leaveRoom_sio_rooms:
  "sio_rooms (fst (leaveRoom s sock r))
     = (if sock \<in> participants s r then (sio_rooms s)(r := sio_rooms s r - {sock}) else sio_rooms s)"
  by (auto simp: leaveRoom_def Let_def socket_leave_def participants_def Map_has_dom
      split: option.splits)

lemma disconnect_participants:
  "participants (fst (disconnect s sock)) r
     = (if socket_roomId s sock = Some r \<and> r \<noteq> [] then participants s r - {sock}
        else participants s r)"
  by (auto simp: disconnect_def Let_def socket_leaveAll_def participants_def
      Map_size_0_iff split: option.splits)

lemma disconnect_binding: "socket_roomId (fst (disconnect s sock)) = socket_roomId s"
  by (simp add: disconnect_def Let_def socket_leaveAll_def split: option.splits)

lemma disconnect_sio_rooms:
  "sio_rooms (fst (disconnect s sock)) = (\<lambda>r. sio_rooms s r - {sock})"
  by (simp add: disconnect_def Let_def socket_leaveAll_def split: option.splits)

lemma createRoom_rooms_None:
  "rooms (fst (createRoom s sock uuid t1 t2 t3)) r = None \<longleftrightarrow> r \<noteq> take 6 uuid \<and> rooms s r = None"
  by (simp add: createRoom_eq)

lemma joinRoom_rooms_None:
  "rooms (fst (joinRoom s sock r t1 t2)) r' = None \<longleftrightarrow> rooms s r' = None"
  using run_join_rooms [of s sock r t1 t2 r'] by (simp add: run_def)

lemma sendTranscript_rooms_None:
  "rooms (fst (sendTranscript s sock r tx conf t1 t2)) r' = None \<longleftrightarrow> rooms s r' = None"
  by (auto simp: sendTranscript_def Let_def split: option.splits)

lemma leaveRoom_rooms_None:
  "rooms s r' = None \<Longrightarrow> rooms (fst (leaveRoom s sock r)) r' = None"
  by (auto simp: leaveRoom_def Let_def socket_leave_def split: option.splits)

lemma disconnect_rooms_None:
  "rooms s r' = None \<Longrightarrow> rooms (fst (disconnect s sock)) r' = None"
  by (auto simp: disconnect_def Let_def socket_leaveAll_def split: option.splits)

lemma bound_ok_initial: "bound_ok (initial ip)"
  by (simp add: bound_ok_def initial_def participants_def)

lemma bound_ok_createRoom:
  assumes "bound_ok s" and "sanctioned s (CreateRoom sock uuid t1 t2 t3)"
  shows "bound_ok (fst (createRoom s sock uuid t1 t2 t3))"
proof -
  from assms(2) have fresh: "rooms s (take 6 uuid) = None" and ne: "take 6 uuid \<noteq> []"
    and out: "\<And>r. sock \<notin> participants s r"
    by (simp_all add: in_no_room_def)
  from fresh have e: "participants s (take 6 uuid) = {}" by (rule participants_None)
  show ?thesis
    unfolding bound_ok_def
  proof (intro conjI allI impI)
    fix x r
    assume "x \<in> participants (fst (createRoom s sock uuid t1 t2 t3)) r"
    then show "socket_roomId (fst (createRoom s sock uuid t1 t2 t3)) x = Some r"
      using assms(1) out e
      by (auto simp: createRoom_participants createRoom_binding bound_ok_def split: if_splits)
  next
    fix r
    show "sio_rooms (fst (createRoom s sock uuid t1 t2 t3)) r
        = participants (fst (createRoom s sock uuid t1 t2 t3)) r"
      using assms(1) e by (simp add: createRoom_participants createRoom_sio_rooms bound_ok_def)
  next
    show "rooms (fst (createRoom s sock uuid t1 t2 t3)) [] = None"
      using assms(1) ne by (simp add: createRoom_rooms_None bound_ok_def)
  qed
qed

lemma bound_ok_joinRoom:
  assumes "bound_ok s" and "sanctioned s (JoinRoom sock r t1 t2)"
  shows "bound_ok (fst (joinRoom s sock r t1 t2))"
proof -
  from assms(2) have out: "\<And>r. sock \<notin> participants s r"
    by (simp add: in_no_room_def)
  show ?thesis
    unfolding bound_ok_def
  proof (intro conjI allI impI)
    fix x r'
    assume "x \<in> participants (fst (joinRoom s sock r t1 t2)) r'"
    then show "socket_roomId (fst (joinRoom s sock r t1 t2)) x = Some r'"
      using assms(1) out
      by (auto simp: joinRoom_participants joinRoom_binding bound_ok_def split: if_splits)
  next
    fix r'
    show "sio_rooms (fst (joinRoom s sock r t1 t2)) r' = participants (fst (joinRoom s sock r t1 t2)) r'"
      using assms(1) by (auto simp: joinRoom_participants joinRoom_sio_rooms bound_ok_def)
  next
    show "rooms (fst (joinRoom s sock r t1 t2)) [] = None"
      using assms(1) by (simp add: joinRoom_rooms_None bound_ok_def)
  qed
qed

lemma bound_ok_sendTranscript:
  "bound_ok s \<Longrightarrow> bound_ok (fst (sendTranscript s sock r tx conf t1 t2))"
  by (simp add: bound_ok_def sendTranscript_participants sendTranscript_binding
      sendTranscript_sio_rooms sendTranscript_rooms_None)

lemma bound_ok_leaveRoom: "bound_ok s \<Longrightarrow> bound_ok (fst (leaveRoom s sock r))"
  by (auto simp: bound_ok_def leaveRoom_participants leaveRoom_binding leaveRoom_sio_rooms
      leaveRoom_rooms_None split: if_splits)

lemma bound_ok_disconnect: "bound_ok s \<Longrightarrow> bound_ok (fst (disconnect s sock))"
  unfolding bound_ok_def
proof (intro conjI allI impI)
  fix x r
  assume ok: "(\<forall>sock r. sock \<in> participants s r \<longrightarrow> socket_roomId s sock = Some r) \<and>
    (\<forall>r. sio_rooms s r = participants s r) \<and> rooms s [] = None"
  {
    assume "x \<in> participants (fst (disconnect s sock)) r"
    then show "socket_roomId (fst (disconnect s sock)) x = Some r"
      using ok by (auto simp: disconnect_participants disconnect_binding split: if_splits)
  }
  have e: "participants s [] = {}" using ok by (simp add: participants_None)
  show "sio_rooms (fst (disconnect s sock)) r = participants (fst (disconnect s sock)) r"
    using ok e by (auto simp: disconnect_participants disconnect_sio_rooms)
  show "rooms (fst (disconnect s sock)) [] = None"
    using ok by (simp add: disconnect_rooms_None)
qed

lemma bound_ok_step: "bound_ok s \<Longrightarrow> sanctioned s ev \<Longrightarrow> bound_ok (step s ev)"
  by (cases ev)
     (simp_all add: bound_ok_createRoom bound_ok_joinRoom bound_ok_sendTranscript
       bound_ok_leaveRoom bound_ok_disconnect del: sanctioned.simps)

lemma bound_ok_run: "bound_ok s \<Longrightarrow> sanctioned_run s evs \<Longrightarrow> bound_ok (run s evs)"
  by (induction evs arbitrary: s) (simp_all add: run_Nil run_Cons bound_ok_step)


section \<open>Disconnecting\<close>

text \<open>
  C4, as the code has it. A disconnecting socket is removed from the room it is bound to
  (\<open>socket.roomId\<close>), and the participants of every other room stay as they are. So when the
  only room that records the socket is the one it is bound to, no room records it afterwards.
  In every run of sanctioned events from the initial state, a socket is recorded in at most
  one room at a time, and after it disconnects no room records it.
\<close>

theorem disconnect_leaves_bound_room:
  "(socket_roomId s sock = Some r \<and> r \<noteq> [] \<longrightarrow> sock \<notin> participants (fst (disconnect s sock)) r) \<and>
   (socket_roomId s sock \<noteq> Some r \<longrightarrow>
      participants (fst (disconnect s sock)) r = participants s r) \<and>
   ((\<forall>r'. sock \<in> participants s r' \<longrightarrow> socket_roomId s sock = Some r' \<and> r' \<noteq> []) \<longrightarrow>
      (\<forall>r'. sock \<notin> participants (fst (disconnect s sock)) r')) \<and>
   (sanctioned_run (initial ip) evs \<longrightarrow>
      (\<forall>x r1 r2. x \<in> participants (run (initial ip) evs) r1 \<and>
                  x \<in> participants (run (initial ip) evs) r2 \<longrightarrow> r1 = r2) \<and>
      (\<forall>x r'. x \<notin> participants (fst (disconnect (run (initial ip) evs) x)) r'))"
proof (intro conjI impI allI)
  assume "socket_roomId s sock = Some r \<and> r \<noteq> []"
  then show "sock \<notin> participants (fst (disconnect s sock)) r"
    by (simp add: disconnect_participants)
next
  assume "socket_roomId s sock \<noteq> Some r"
  then show "participants (fst (disconnect s sock)) r = participants s r"
    by (simp add: disconnect_participants)
next
  fix r'
  assume "\<forall>r'. sock \<in> participants s r' \<longrightarrow> socket_roomId s sock = Some r' \<and> r' \<noteq> []"
  then show "sock \<notin> participants (fst (disconnect s sock)) r'"
    by (auto simp: disconnect_participants)
next
  fix x r1 r2
  assume "sanctioned_run (initial ip) evs"
  then have ok: "bound_ok (run (initial ip) evs)"
    by (intro bound_ok_run bound_ok_initial)
  assume "x \<in> participants (run (initial ip) evs) r1 \<and> x \<in> participants (run (initial ip) evs) r2"
  with ok have "socket_roomId (run (initial ip) evs) x = Some r1"
    "socket_roomId (run (initial ip) evs) x = Some r2"
    by (simp_all add: bound_ok_def)
  then show "r1 = r2" by simp
next
  fix x r'
  assume "sanctioned_run (initial ip) evs"
  then have ok: "bound_ok (run (initial ip) evs)"
    by (intro bound_ok_run bound_ok_initial)
  then have "participants (run (initial ip) evs) [] = {}"
    by (simp add: bound_ok_def participants_None)
  with ok show "x \<notin> participants (fst (disconnect (run (initial ip) evs) x)) r'"
    by (auto simp: disconnect_participants bound_ok_def)
qed

lemma initial_participants: "participants (initial ip) r = {}"
  by (simp add: initial_def participants_def)

lemma initial_rooms: "rooms (initial ip) r = None"
  by (simp add: initial_def)

lemma two_eq_run:
  "two = run (initial ''192.168.1.5'')
     [CreateRoom ''sockA'' uuidA 1 1 1, JoinRoom ''sockB'' ''3f2a9c'' 2 2]"
  by (simp add: two_def created_def run_def)

lemma created_no_sockB: "in_no_room created ''sockB''"
  by (simp add: in_no_room_def created_def run_def createRoom_participants initial_participants)

lemma two_sanctioned:
  "sanctioned_run (initial ''192.168.1.5'')
     [CreateRoom ''sockA'' uuidA 1 1 1, JoinRoom ''sockB'' ''3f2a9c'' 2 2]"
  using created_no_sockB
  by (simp add: take6_uuidA created_def run_def in_no_room_def initial_participants initial_rooms)

lemma two_binding: "socket_roomId two ''sockB'' = Some ''3f2a9c''"
  by (simp add: two_join [THEN arg_cong, of fst, simplified, symmetric] joinRoom_binding
      created_room created_userCount)

lemma created_participants_all:
  "participants created r = (if r = ''3f2a9c'' then {''sockA''} else {})"
  by (simp add: created_eq participants_def)

lemma two_participants_all:
  "participants two r = (if r = ''3f2a9c'' then {''sockA'', ''sockB''} else {})"
proof -
  have eq: "two = fst (joinRoom created ''sockB'' ''3f2a9c'' 2 2)"
    by (simp add: two_join)
  show ?thesis
    unfolding eq using created_room created_userCount
    by (auto simp: joinRoom_participants created_participants_all)
qed

lemma two_rooms_of_sockB: "{r. ''sockB'' \<in> participants two r} = {''3f2a9c''}"
  by (auto simp: two_participants_all split: if_splits)

theorem disconnect_leaves_bound_room_witness:
  "socket_roomId two ''sockB'' = Some ''3f2a9c'' \<and>
   ''sockB'' \<notin> participants (fst (disconnect two ''sockB'')) ''3f2a9c'' \<and>
   socket_roomId two ''sockB'' \<noteq> Some ''b81d04'' \<and>
   participants (fst (disconnect two ''sockB'')) ''b81d04'' = participants two ''b81d04'' \<and>
   {r. ''sockB'' \<in> participants two r} = {''3f2a9c''} \<and>
   (\<forall>r'. ''sockB'' \<notin> participants (fst (disconnect two ''sockB'')) r') \<and>
   sanctioned_run (initial ''192.168.1.5'')
     [CreateRoom ''sockA'' uuidA 1 1 1, JoinRoom ''sockB'' ''3f2a9c'' 2 2] \<and>
   (\<forall>x r'. x \<notin> participants (fst (disconnect two x)) r')"
proof -
  note t = disconnect_leaves_bound_room [of two "''sockB''" _ "''192.168.1.5''"
      "[CreateRoom ''sockA'' uuidA 1 1 1, JoinRoom ''sockB'' ''3f2a9c'' 2 2]", folded two_eq_run]
  have other: "socket_roomId two ''sockB'' \<noteq> Some ''b81d04''"
    by (simp add: two_binding)
  have only: "\<forall>r'. ''sockB'' \<in> participants two r' \<longrightarrow>
      socket_roomId two ''sockB'' = Some r' \<and> r' \<noteq> []"
    by (simp add: two_participants_all two_binding)
  have c1: "''sockB'' \<notin> participants (fst (disconnect two ''sockB'')) ''3f2a9c''"
    using t [THEN conjunct1, of "''3f2a9c''"] two_binding by simp
  have c2: "participants (fst (disconnect two ''sockB'')) ''b81d04'' = participants two ''b81d04''"
    by (rule t [THEN conjunct2, THEN conjunct1, THEN mp, OF other])
  have c3: "\<forall>r'. ''sockB'' \<notin> participants (fst (disconnect two ''sockB'')) r'"
    by (rule t [THEN conjunct2, THEN conjunct2, THEN conjunct1, THEN mp, OF only])
  have c4: "\<forall>x r'. x \<notin> participants (fst (disconnect two x)) r'"
    by (rule t [THEN conjunct2, THEN conjunct2, THEN conjunct2, THEN mp, OF two_sanctioned,
          THEN conjunct2])
  show ?thesis
    apply (intro conjI)
           apply (rule two_binding)
          apply (rule c1)
         apply (rule other)
        apply (rule c2)
       apply (rule two_rooms_of_sockB)
      apply (rule c3)
     apply (rule two_sanctioned)
    apply (rule c4)
    done
qed

lemma both_participants_A: "participants both ''3f2a9c'' = {''sockA''}"
  by (simp add: both_def run_def createRoom_participants joinRoom_participants take6_uuidA
      take6_uuidB initial_participants)

lemma both_participants_B: "participants both ''b81d04'' = {''sockA'', ''sockB''}"
  by (simp add: both_def run_def createRoom_participants joinRoom_participants
      createRoom_rooms_None userCount_card take6_uuidA take6_uuidB initial_participants)

lemma both_binding: "socket_roomId both ''sockA'' = Some ''b81d04''"
  by (simp add: both_def run_def joinRoom_binding createRoom_participants
      createRoom_rooms_None userCount_card take6_uuidA take6_uuidB initial_participants)

text \<open>
  The claim as written fails, since nothing stops a bound socket from joining a second
  room: \<open>sockA\<close> is recorded in two rooms at once, and after it disconnects the room it
  created still records it.
\<close>

theorem disconnect_two_rooms_counterexample:
  "''sockA'' \<in> participants both ''3f2a9c'' \<and>
   ''sockA'' \<in> participants both ''b81d04'' \<and>
   ''3f2a9c'' \<noteq> ''b81d04'' \<and>
   ''sockA'' \<in> participants (fst (disconnect both ''sockA'')) ''3f2a9c''"
  by (simp add: disconnect_participants both_participants_A both_participants_B both_binding)

section \<open>Counting joins and leaves\<close>

lemma join_succeeds_iff:
  "join_succeeds s r (Join sock t1 t2) \<longleftrightarrow> rooms s r \<noteq> None \<and> userCount s r < 10"
  by (cases s r rule: joinRoom_cases)
     (simp_all add: joinRoom_not_found joinRoom_full joinRoom_ok userCount_Some)

lemma joinRoom_userCount:
  "userCount (fst (joinRoom s sock r t1 t2)) r
     = (if rooms s r \<noteq> None \<and> userCount s r < 10 \<and> sock \<notin> participants s r
        then Suc (userCount s r) else userCount s r)"
  by (simp add: userCount_card joinRoom_participants finite_participants card_insert_if)

lemma leaveRoom_userCount:
  "userCount (fst (leaveRoom s sock r)) r
     = (if sock \<in> participants s r then userCount s r - 1 else userCount s r)"
  by (simp add: userCount_card leaveRoom_participants finite_participants)

lemma member_userCount_pos: "sock \<in> participants s r \<Longrightarrow> 0 < userCount s r"
  by (auto simp: userCount_card finite_participants card_gt_0_iff)

lemma op_step_count:
  "userCount (step s (op_event r x)) r + (if leave_effective s r x then 1 else 0)
     = userCount s r + (if join_adds s r x then 1 else 0)"
proof (cases x)
  case (Join sock t1 t2)
  then show ?thesis
    by (simp add: joinRoom_userCount join_succeeds_iff del: join_succeeds.simps)
next
  case (Leave sock)
  then show ?thesis
    using member_userCount_pos [of sock s r] by (simp add: leaveRoom_userCount)
qed

text \<open>
  C8, as the code has it. After any sequence of join and leave requests for a room, the
  participant count is the count before, plus the joins that added a participant, minus the
  effective leaves (so the leaves never outnumber the count before plus the added joins); and
  the count is the number of distinct sockets the room records.
\<close>

theorem join_leave_count:
  "userCount (run s (map (op_event r) ops)) r + count_ops leave_effective s r ops
     = userCount s r + count_ops join_adds s r ops \<and>
   userCount (run s (map (op_event r) ops)) r = card (participants (run s (map (op_event r) ops)) r)"
proof
  show "userCount (run s (map (op_event r) ops)) r + count_ops leave_effective s r ops
     = userCount s r + count_ops join_adds s r ops"
  proof (induction ops arbitrary: s)
    case Nil
    then show ?case by (simp add: run_Nil)
  next
    case (Cons x ops)
    have "userCount (run (step s (op_event r x)) (map (op_event r) ops)) r
        + count_ops leave_effective (step s (op_event r x)) r ops
        = userCount (step s (op_event r x)) r + count_ops join_adds (step s (op_event r x)) r ops"
      by (rule Cons.IH)
    with op_step_count [of s r x] show ?case
      by (simp add: run_Cons del: step.simps join_adds.simps leave_effective.simps)
  qed
  show "userCount (run s (map (op_event r) ops)) r = card (participants (run s (map (op_event r) ops)) r)"
    by (rule userCount_card)
qed

lemma three_joins_run:
  "participants (run created (map (op_event ''3f2a9c'') three_joins)) ''3f2a9c'' = {''sockA'', ''sockB''}"
  by (auto simp: three_joins_def run_def joinRoom_participants joinRoom_rooms_None created_room
      created_participants userCount_card)

lemma three_joins_succeed: "count_ops join_succeeds created ''3f2a9c'' three_joins = 3"
  by (simp add: three_joins_def join_succeeds_iff joinRoom_rooms_None joinRoom_userCount
      joinRoom_participants created_room created_participants created_userCount
      del: join_succeeds.simps)

lemma three_joins_add: "count_ops join_adds created ''3f2a9c'' three_joins = 1"
  by (simp add: three_joins_def join_succeeds_iff joinRoom_rooms_None joinRoom_userCount
      joinRoom_participants created_room created_participants created_userCount
      del: join_succeeds.simps)

lemma three_joins_leave: "count_ops leave_effective created ''3f2a9c'' three_joins = 0"
  by (simp add: three_joins_def)

theorem join_leave_count_witness:
  "userCount (run created (map (op_event ''3f2a9c'') three_joins)) ''3f2a9c'' + 0 = 1 + 1 \<and>
   userCount (run created (map (op_event ''3f2a9c'') three_joins)) ''3f2a9c''
     = card {''sockA'', ''sockB''}"
  using join_leave_count [of created "''3f2a9c''" three_joins]
  by (simp add: three_joins_add three_joins_leave created_userCount three_joins_run)

text \<open>
  The claim as written counts every successful join. A join by a socket the room already
  records succeeds and adds nobody: after three successful joins by \<open>sockB\<close> and no leave, a room
  that had one participant has two, neither 3 nor 1 + 3.
\<close>

theorem rejoin_count_counterexample:
  "userCount created ''3f2a9c'' = 1 \<and>
   count_ops join_succeeds created ''3f2a9c'' three_joins = 3 \<and>
   count_ops leave_effective created ''3f2a9c'' three_joins = 0 \<and>
   userCount (run created (map (op_event ''3f2a9c'') three_joins)) ''3f2a9c'' = 2 \<and>
   int (userCount (run created (map (op_event ''3f2a9c'') three_joins)) ''3f2a9c'')
     \<noteq> int (count_ops join_succeeds created ''3f2a9c'' three_joins)
        - int (count_ops leave_effective created ''3f2a9c'' three_joins) \<and>
   int (userCount (run created (map (op_event ''3f2a9c'') three_joins)) ''3f2a9c'')
     \<noteq> int (userCount created ''3f2a9c'')
        + int (count_ops join_succeeds created ''3f2a9c'' three_joins)
        - int (count_ops leave_effective created ''3f2a9c'' three_joins)"
  by (simp add: three_joins_succeed three_joins_leave userCount_card
      three_joins_run created_participants)

section \<open>A participant whose socket is gone\<close>

















section \<open>A successful join\<close>





section \<open>Relaying a transcript\<close>




end
